theory Spec2Isabelle
  imports Complex_Main
begin

section \<open>TradeSense-AI: the trading challenge engine of \<open>backend/flask_trading.py\<close>\<close>

text \<open>
  The theory embeds the three state-changing routes of \<open>flask_trading.py\<close>
  (\<open>create_challenge\<close>, \<open>execute_trade\<close>, \<open>close_trade\<close>) over the rows of
  \<open>flask_models.py\<close>.

  Conventions of the embedding.
  \<^item> A \<open>db.Float\<close> column and a Python \<open>float\<close> are a \<open>pyfloat\<close>: a real number or NaN.
    The numbers are exact; rounding and the two infinities are outside the model.
  \<^item> The integers of \<open>TIER_CONFIG\<close> are \<open>int\<close>; they become floats where Python converts them.
  \<^item> The request body is taken after \<open>float(...)\<close> has parsed its numbers; a missing number
    is \<open>0\<close>, as \<open>data.get(key, 0)\<close> makes it, and the text \<open>nan\<close> is NaN, as \<open>float('nan')\<close>
    makes it.
  \<^item> The database is a record of tables, each a map from the primary key to the row. A
    route returns the database it leaves behind and its response. A response that is an
    error leaves the database as it was: the validation errors return before any write,
    and an exception reaches \<open>db.session.rollback()\<close> before \<open>commit\<close>.
  \<^item> The timestamps \<open>created_date\<close> and \<open>updated_date\<close> are left out: no route reads them.
\<close>

subsection \<open>Strings\<close>

text \<open>
  \<open>str.lower()\<close> and \<open>str.upper()\<close>, on ASCII: a letter is mapped through the alphabet,
  every other byte is kept. Python also maps letters outside ASCII; the only one whose
  lower case is an ASCII string is the Kelvin sign, which gives \<open>k\<close>, a letter of no tier
  name and of no side, so the lookups below are decided as in Python.
\<close>

definition lower_char :: "char \<Rightarrow> char" where
  "lower_char c =
     (case map_of (zip ''ABCDEFGHIJKLMNOPQRSTUVWXYZ'' ''abcdefghijklmnopqrstuvwxyz'') c of
        Some l \<Rightarrow> l
      | None \<Rightarrow> c)"

definition upper_char :: "char \<Rightarrow> char" where
  "upper_char c =
     (case map_of (zip ''abcdefghijklmnopqrstuvwxyz'' ''ABCDEFGHIJKLMNOPQRSTUVWXYZ'') c of
        Some u \<Rightarrow> u
      | None \<Rightarrow> c)"

definition lower :: "string \<Rightarrow> string" where
  "lower s = map lower_char s"

definition upper :: "string \<Rightarrow> string" where
  "upper s = map upper_char s"

text \<open>
  \<open>str(n)\<close> of an integer, as an f-string prints it. \<open>digit\<close> is only applied to numbers
  below ten.
\<close>

definition digit :: "nat \<Rightarrow> char" where
  "digit d = ''0123456789'' ! d"

fun str_nat :: "nat \<Rightarrow> string" where
  "str_nat n = (if n < 10 then [digit n] else str_nat (n div 10) @ [digit (n mod 10)])"

declare str_nat.simps [simp del]

definition str_int :: "int \<Rightarrow> string" where
  "str_int i = (if i < 0 then CHR ''-'' # str_nat (nat (- i)) else str_nat (nat i))"

subsection \<open>Floats\<close>

text \<open>
  A Python float is a number or NaN. Arithmetic on NaN gives NaN and every comparison with
  NaN is false, so that \<open>x <= 0\<close> does not hold for NaN. \<open>py_max a b\<close> is the built-in
  \<open>max(a, b)\<close>, which keeps its first argument unless the second is greater. The division
  is only used after the check that the divisor is not zero, where Python raises
  \<open>ZeroDivisionError\<close> (for every dividend, NaN too).
\<close>

datatype pyfloat = Num real | NaN

instantiation pyfloat :: "{zero, one, plus, minus, uminus, times, inverse, ord}"
begin

definition zero_pyfloat :: pyfloat where
  "zero_pyfloat = Num 0"

definition one_pyfloat :: pyfloat where
  "one_pyfloat = Num 1"

definition plus_pyfloat :: "pyfloat \<Rightarrow> pyfloat \<Rightarrow> pyfloat" where
  "plus_pyfloat x y = (case (x, y) of (Num a, Num b) \<Rightarrow> Num (a + b) | _ \<Rightarrow> NaN)"

definition minus_pyfloat :: "pyfloat \<Rightarrow> pyfloat \<Rightarrow> pyfloat" where
  "minus_pyfloat x y = (case (x, y) of (Num a, Num b) \<Rightarrow> Num (a - b) | _ \<Rightarrow> NaN)"

definition uminus_pyfloat :: "pyfloat \<Rightarrow> pyfloat" where
  "uminus_pyfloat x = (case x of Num a \<Rightarrow> Num (- a) | NaN \<Rightarrow> NaN)"

definition times_pyfloat :: "pyfloat \<Rightarrow> pyfloat \<Rightarrow> pyfloat" where
  "times_pyfloat x y = (case (x, y) of (Num a, Num b) \<Rightarrow> Num (a * b) | _ \<Rightarrow> NaN)"

definition divide_pyfloat :: "pyfloat \<Rightarrow> pyfloat \<Rightarrow> pyfloat" where
  "divide_pyfloat x y = (case (x, y) of (Num a, Num b) \<Rightarrow> Num (a / b) | _ \<Rightarrow> NaN)"

definition inverse_pyfloat :: "pyfloat \<Rightarrow> pyfloat" where
  "inverse_pyfloat x = (case x of Num a \<Rightarrow> Num (inverse a) | NaN \<Rightarrow> NaN)"

definition less_eq_pyfloat :: "pyfloat \<Rightarrow> pyfloat \<Rightarrow> bool" where
  "less_eq_pyfloat x y = (case (x, y) of (Num a, Num b) \<Rightarrow> a \<le> b | _ \<Rightarrow> False)"

definition less_pyfloat :: "pyfloat \<Rightarrow> pyfloat \<Rightarrow> bool" where
  "less_pyfloat x y = (case (x, y) of (Num a, Num b) \<Rightarrow> a < b | _ \<Rightarrow> False)"

instance ..

end

instance pyfloat :: semigroup_add
proof
  fix a b c :: pyfloat
  show "a + b + c = a + (b + c)"
    by (cases a; cases b; cases c) (simp_all add: plus_pyfloat_def)
qed

instance pyfloat :: numeral ..

definition py_max :: "pyfloat \<Rightarrow> pyfloat \<Rightarrow> pyfloat" where
  "py_max a b = (if b > a then b else a)"

definition float_of_int :: "int \<Rightarrow> pyfloat" where
  "float_of_int i = Num (real_of_int i)"

subsection \<open>Rows (\<open>flask_models.py\<close>)\<close>

record challenge =
  ident :: nat
  user_id :: nat
  tier :: string
  initial_balance :: pyfloat
  current_balance :: pyfloat
  highest_balance :: pyfloat
  daily_start_balance :: pyfloat
  status :: string
  fail_reason :: "string option"
  profit_percent :: pyfloat
  payment_method :: "string option"
  amount_paid :: "pyfloat option"

record trade =
  ident :: nat
  challenge_id :: nat
  user_id :: nat
  symbol :: string
  type :: string
  quantity :: pyfloat
  entry_price :: pyfloat
  exit_price :: "pyfloat option"
  profit_loss :: "pyfloat option"
  status :: string

text \<open>
  The tables. \<open>users\<close> holds the primary keys of the \<open>User\<close> rows (no route below reads
  another column of a user); the two counters are the next autoincrement keys.
\<close>

record db =
  users :: "nat set"
  challenges :: "nat \<rightharpoonup> challenge"
  trades :: "nat \<rightharpoonup> trade"
  next_challenge_id :: nat
  next_trade_id :: nat

subsection \<open>Responses\<close>

text \<open>
  An error response is its HTTP status and its message: \<open>BadRequest m\<close> is
  \<open>jsonify({'error': m}), 400\<close>, \<open>NotFound m\<close> is status 404, and \<open>ServerError e\<close> is the
  status 500 of the \<open>except Exception\<close> handler, after the rollback, for the exception \<open>e\<close>.
  The messages are those of the source; the specification names them
  \<open>UnknownTier\<close> (\<open>Invalid tier. Must be starter, pro, or elite\<close>),
  \<open>InvalidInput\<close> (\<open>Trade type must be buy or sell\<close>, \<open>Invalid quantity or price\<close>),
  \<open>ChallengeNotFound\<close>, \<open>ChallengeNotActive\<close>, \<open>InsufficientBalance\<close>,
  \<open>InvalidExitPrice\<close>, \<open>TradeNotFound\<close> and \<open>TradeAlreadyClosed\<close>.
\<close>

datatype py_exception = KeyError string | ZeroDivisionError | AttributeError

datatype error = BadRequest string | NotFound string | ServerError py_exception

subsection \<open>Tier configuration\<close>

record tier_config =
  initial_balance :: int
  price :: int
  max_daily_loss_percent :: int
  max_total_loss_percent :: int
  profit_target_percent :: int

definition TIER_CONFIG :: "string \<rightharpoonup> tier_config" where
  "TIER_CONFIG = map_of
     [(''starter'', \<lparr>initial_balance = 10000, price = 99, max_daily_loss_percent = 5,
                     max_total_loss_percent = 10, profit_target_percent = 10\<rparr>),
      (''pro'', \<lparr>initial_balance = 50000, price = 299, max_daily_loss_percent = 5,
                 max_total_loss_percent = 10, profit_target_percent = 10\<rparr>),
      (''elite'', \<lparr>initial_balance = 100000, price = 599, max_daily_loss_percent = 5,
                   max_total_loss_percent = 10, profit_target_percent = 10\<rparr>)]"

subsection \<open>\<open>create_challenge\<close>\<close>

text \<open>
  \<open>User.query.get(user_id)\<close> is \<open>None\<close> for a user that is not in the table; the route
  only fails on it at \<open>user.id\<close>, after the tier check. The columns \<open>status\<close> and
  \<open>profit_percent\<close> take their defaults \<open>'active'\<close> and \<open>0.0\<close> at the insert, \<open>fail_reason\<close>
  is NULL.
\<close>

definition create_challenge ::
  "db \<Rightarrow> nat \<Rightarrow> string \<Rightarrow> string option \<Rightarrow> db \<times> (error + challenge)" where
  "create_challenge s uid tier_in pm =
     (let tier = lower tier_in in
      case TIER_CONFIG tier of
        None \<Rightarrow> (s, Inl (BadRequest ''Invalid tier. Must be starter, pro, or elite''))
      | Some config \<Rightarrow>
          if uid \<notin> users s then (s, Inl (ServerError AttributeError))
          else
            let initial = float_of_int (tier_config.initial_balance config);
                c = \<lparr>challenge.ident = next_challenge_id s,
                     user_id = uid,
                     tier = tier,
                     initial_balance = initial,
                     current_balance = initial,
                     highest_balance = initial,
                     daily_start_balance = initial,
                     status = ''active'',
                     fail_reason = None,
                     profit_percent = 0,
                     payment_method = pm,
                     amount_paid = Some (float_of_int (price config))\<rparr>
            in (s\<lparr>challenges := (challenges s)(next_challenge_id s \<mapsto> c),
                   next_challenge_id := Suc (next_challenge_id s)\<rparr>,
                Inr c))"

subsection \<open>\<open>execute_trade\<close>\<close>

text \<open>\<open>Challenge.query.filter_by(id=challenge_id, user_id=user_id).first()\<close>\<close>

definition challenge_first :: "db \<Rightarrow> nat \<Rightarrow> nat \<Rightarrow> challenge option" where
  "challenge_first s cid uid =
     (case challenges s cid of
        None \<Rightarrow> None
      | Some c \<Rightarrow> if challenge.user_id c = uid then Some c else None)"

definition execute_trade ::
  "db \<Rightarrow> nat \<Rightarrow> nat \<Rightarrow> string \<Rightarrow> string \<Rightarrow> pyfloat \<Rightarrow> pyfloat \<Rightarrow> db \<times> (error + trade)" where
  "execute_trade s uid cid symbol_in type_in qty price_in =
     (let sym = upper symbol_in; trade_type = lower type_in in
      if trade_type \<notin> set [''buy'', ''sell'']
      then (s, Inl (BadRequest ''Trade type must be buy or sell''))
      else if qty \<le> 0 \<or> price_in \<le> 0
      then (s, Inl (BadRequest ''Invalid quantity or price''))
      else case challenge_first s cid uid of
        None \<Rightarrow> (s, Inl (NotFound ''Challenge not found''))
      | Some c \<Rightarrow>
          if challenge.status c \<noteq> ''active''
          then (s, Inl (BadRequest ''Challenge is not active''))
          else
            let trade_value = qty * price_in in
            if trade_value > current_balance c
            then (s, Inl (BadRequest ''Insufficient balance''))
            else
              let t = \<lparr>trade.ident = next_trade_id s,
                       challenge_id = challenge.ident c,
                       user_id = uid,
                       symbol = sym,
                       type = trade_type,
                       quantity = qty,
                       entry_price = price_in,
                       exit_price = None,
                       profit_loss = None,
                       status = ''open''\<rparr>
              in (s\<lparr>trades := (trades s)(next_trade_id s \<mapsto> t),
                     next_trade_id := Suc (next_trade_id s)\<rparr>,
                  Inr t))"

subsection \<open>\<open>close_trade\<close>\<close>

text \<open>\<open>Trade.query.filter_by(id=trade_id, user_id=user_id).first()\<close>\<close>

definition trade_first :: "db \<Rightarrow> nat \<Rightarrow> nat \<Rightarrow> trade option" where
  "trade_first s tid uid =
     (case trades s tid of
        None \<Rightarrow> None
      | Some t \<Rightarrow> if trade.user_id t = uid then Some t else None)"

text \<open>
  The route, statement by statement. \<open>trade.challenge\<close> is the row that \<open>challenge_id\<close>
  refers to; the division by \<open>initial_balance\<close> raises \<open>ZeroDivisionError\<close> at zero and
  \<open>TIER_CONFIG[challenge.tier]\<close> raises \<open>KeyError\<close> on a tier that is not configured, both
  after the trade and the balances were changed in the session and before the commit, so
  that nothing of it is kept.
\<close>

definition close_trade ::
  "db \<Rightarrow> nat \<Rightarrow> nat \<Rightarrow> pyfloat \<Rightarrow> db \<times> (error + trade \<times> challenge)" where
  "close_trade s uid tid exit_price_in =
     (if exit_price_in \<le> 0 then (s, Inl (BadRequest ''Invalid exit price''))
      else case trade_first s tid uid of
        None \<Rightarrow> (s, Inl (NotFound ''Trade not found''))
      | Some t \<Rightarrow>
          if trade.status t \<noteq> ''open''
          then (s, Inl (BadRequest ''Trade is already closed''))
          else
            let pl = (if type t = ''buy''
                      then (exit_price_in - entry_price t) * quantity t
                      else (entry_price t - exit_price_in) * quantity t);
                t' = t\<lparr>exit_price := Some exit_price_in,
                       profit_loss := Some pl,
                       trade.status := ''closed''\<rparr>
            in (case challenges s (challenge_id t) of
              None \<Rightarrow> (s, Inl (ServerError AttributeError))
            | Some c \<Rightarrow>
                let c1 = c\<lparr>current_balance := current_balance c + pl\<rparr>;
                    c2 = c1\<lparr>highest_balance := py_max (highest_balance c1) (current_balance c1)\<rparr>
                in if challenge.initial_balance c2 = 0
                   then (s, Inl (ServerError ZeroDivisionError))
                   else
                     let c3 = c2\<lparr>profit_percent :=
                                  ((current_balance c2 - challenge.initial_balance c2)
                                     / challenge.initial_balance c2) * 100\<rparr>
                     in (case TIER_CONFIG (tier c3) of
                       None \<Rightarrow> (s, Inl (ServerError (KeyError (tier c3))))
                     | Some config \<Rightarrow>
                         let daily_loss = daily_start_balance c3 - current_balance c3;
                             max_daily_loss = daily_start_balance c3
                               * (float_of_int (max_daily_loss_percent config) / 100);
                             c4 = (if daily_loss \<ge> max_daily_loss
                                   then c3\<lparr>challenge.status := ''failed'',
                                           fail_reason := Some (''Exceeded ''
                                             @ str_int (max_daily_loss_percent config)
                                             @ ''% daily loss limit'')\<rparr>
                                   else c3);
                             total_loss = challenge.initial_balance c4 - current_balance c4;
                             max_total_loss = challenge.initial_balance c4
                               * (float_of_int (max_total_loss_percent config) / 100);
                             c5 = (if total_loss \<ge> max_total_loss
                                   then c4\<lparr>challenge.status := ''failed'',
                                           fail_reason := Some (''Exceeded ''
                                             @ str_int (max_total_loss_percent config)
                                             @ ''% total loss limit'')\<rparr>
                                   else c4);
                             c6 = (if profit_percent c5
                                       \<ge> float_of_int (profit_target_percent config)
                                   then c5\<lparr>challenge.status := ''passed''\<rparr>
                                   else c5)
                         in (s\<lparr>challenges := (challenges s)(challenge_id t \<mapsto> c6),
                                trades := (trades s)(tid \<mapsto> t')\<rparr>,
                             Inr (t', c6)))))"

subsection \<open>A run of settlements\<close>

text \<open>
  A sequence of \<open>close_trade\<close> requests \<open>(user, trade, exit price)\<close>, served one after the
  other; a request that is refused leaves the database as it was and the run goes on.
\<close>

fun close_all :: "db \<Rightarrow> (nat \<times> nat \<times> pyfloat) list \<Rightarrow> db" where
  "close_all s [] = s"
| "close_all s ((uid, tid, p) # rs) = close_all (fst (close_trade s uid tid p)) rs"

subsection \<open>The settlement in closed form\<close>

text \<open>
  The values that \<open>close_trade\<close> computes on its way, named so that its result can be
  written down: the realized profit or loss, the closed trade, the challenge after the
  balance update, the three conditions of the rule checks, the two failure messages, and
  the challenge after the checks. Lemma \<open>close_trade_eval\<close> below proves that
  \<open>close_trade\<close> returns exactly these.
\<close>

definition realized :: "trade \<Rightarrow> pyfloat \<Rightarrow> pyfloat" where
  "realized t p = (if type t = ''buy'' then (p - entry_price t) * quantity t
                   else (entry_price t - p) * quantity t)"

definition closed_trade :: "trade \<Rightarrow> pyfloat \<Rightarrow> trade" where
  "closed_trade t p = t\<lparr>exit_price := Some p, profit_loss := Some (realized t p),
                   trade.status := ''closed''\<rparr>"

definition settled :: "challenge \<Rightarrow> pyfloat \<Rightarrow> challenge" where
  "settled c pl = c\<lparr>current_balance := current_balance c + pl,
       highest_balance := py_max (highest_balance c) (current_balance c + pl),
       profit_percent := ((current_balance c + pl - challenge.initial_balance c)
                            / challenge.initial_balance c) * 100\<rparr>"

definition hit_daily :: "tier_config \<Rightarrow> challenge \<Rightarrow> bool" where
  "hit_daily cfg c \<longleftrightarrow> daily_start_balance c - current_balance c
       \<ge> daily_start_balance c * (float_of_int (max_daily_loss_percent cfg) / 100)"

definition hit_total :: "tier_config \<Rightarrow> challenge \<Rightarrow> bool" where
  "hit_total cfg c \<longleftrightarrow> challenge.initial_balance c - current_balance c
       \<ge> challenge.initial_balance c * (float_of_int (max_total_loss_percent cfg) / 100)"

definition hit_target :: "tier_config \<Rightarrow> challenge \<Rightarrow> bool" where
  "hit_target cfg c \<longleftrightarrow> profit_percent c \<ge> float_of_int (profit_target_percent cfg)"

definition daily_reason :: "tier_config \<Rightarrow> string" where
  "daily_reason cfg =
     ''Exceeded '' @ str_int (max_daily_loss_percent cfg) @ ''% daily loss limit''"

definition total_reason :: "tier_config \<Rightarrow> string" where
  "total_reason cfg =
     ''Exceeded '' @ str_int (max_total_loss_percent cfg) @ ''% total loss limit''"

definition evaluated :: "tier_config \<Rightarrow> challenge \<Rightarrow> challenge" where
  "evaluated cfg c = c\<lparr>challenge.status :=
        (if hit_target cfg c then ''passed''
         else if hit_total cfg c \<or> hit_daily cfg c then ''failed''
         else challenge.status c),
      fail_reason :=
        (if hit_total cfg c then Some (total_reason cfg)
         else if hit_daily cfg c then Some (daily_reason cfg)
         else fail_reason c)\<rparr>"

subsection \<open>Example states\<close>

text \<open>
  \<open>starter_config\<close> is the entry of \<open>TIER_CONFIG\<close> for the starter tier (lemma
  \<open>TIER_CONFIG_starter\<close>). In \<open>db_of c ts\<close> user 1 owns challenge 1, which is \<open>c\<close>, and the
  trades \<open>ts\<close>, latest first. \<open>starter\<close> is a starter challenge of user 1 with the given
  current, highest and daily start balance, status and failure reason; \<open>position k\<close> is
  the open trade \<open>k\<close> on challenge 1 with the given side, quantity and entry price.
\<close>

definition starter_config :: tier_config where
  "starter_config = \<lparr>initial_balance = 10000, price = 99, max_daily_loss_percent = 5,
                     max_total_loss_percent = 10, profit_target_percent = 10\<rparr>"

definition starter ::
  "pyfloat \<Rightarrow> pyfloat \<Rightarrow> pyfloat \<Rightarrow> string \<Rightarrow> string option \<Rightarrow> challenge" where
  "starter cur high daily st reason =
     \<lparr>challenge.ident = 1, user_id = 1, tier = ''starter'', initial_balance = 10000,
      current_balance = cur, highest_balance = high, daily_start_balance = daily,
      status = st, fail_reason = reason,
      profit_percent = ((cur - 10000) / 10000) * 100,
      payment_method = Some ''paypal'', amount_paid = Some 99\<rparr>"

definition position :: "nat \<Rightarrow> string \<Rightarrow> pyfloat \<Rightarrow> pyfloat \<Rightarrow> trade" where
  "position k side qty entry =
     \<lparr>trade.ident = k, challenge_id = 1, user_id = 1, symbol = ''AAPL'', type = side,
      quantity = qty, entry_price = entry, exit_price = None, profit_loss = None,
      status = ''open''\<rparr>"

definition db_of :: "challenge \<Rightarrow> trade list \<Rightarrow> db" where
  "db_of c ts =
     \<lparr>users = {1}, challenges = [1 \<mapsto> c],
      trades = map_of (map (\<lambda>t. (trade.ident t, t)) ts),
      next_challenge_id = 2, next_trade_id = Suc (length ts)\<rparr>"

text \<open>
  A history made by the routes themselves. In \<open>new_db\<close> user 1 exists and nothing else.
  \<open>opened_db\<close>: the user buys a starter challenge and opens two trades on it, each a buy
  of 10 at 500. \<open>failed_db\<close>: the first trade is closed at 390, a loss of 1100, which fails
  the challenge while the second trade is still open.
\<close>

definition new_db :: db where
  "new_db = \<lparr>users = {1}, challenges = Map.empty, trades = Map.empty,
             next_challenge_id = 1, next_trade_id = 1\<rparr>"

definition opened_db :: db where
  "opened_db =
     (let s1 = fst (create_challenge new_db 1 ''starter'' (Some ''paypal''));
          s2 = fst (execute_trade s1 1 1 ''aapl'' ''buy'' 10 500);
          s3 = fst (execute_trade s2 1 1 ''aapl'' ''buy'' 10 500)
      in s3)"

definition failed_db :: db where
  "failed_db = fst (close_trade opened_db 1 1 390)"

section \<open>Properties\<close>

subsection \<open>Floats\<close>

lemma Num_arith [simp]:
  "Num a + Num b = Num (a + b)" "Num a - Num b = Num (a - b)"
  "Num a * Num b = Num (a * b)" "Num a / Num b = Num (a / b)"
  "- Num a = Num (- a)"
  by (simp_all add: plus_pyfloat_def minus_pyfloat_def times_pyfloat_def divide_pyfloat_def
        uminus_pyfloat_def)

lemma NaN_arith [simp]:
  "NaN + x = NaN" "x + NaN = NaN" "NaN - x = NaN" "x - NaN = NaN"
  "NaN * x = NaN" "x * NaN = NaN" "NaN / x = NaN" "x / NaN = NaN" "- NaN = NaN"
  by (simp_all add: plus_pyfloat_def minus_pyfloat_def times_pyfloat_def divide_pyfloat_def
        uminus_pyfloat_def split: pyfloat.splits)

lemma Num_compare [simp]:
  "Num a \<le> Num b \<longleftrightarrow> a \<le> b" "Num a < Num b \<longleftrightarrow> a < b"
  by (simp_all add: less_eq_pyfloat_def less_pyfloat_def)

lemma NaN_compare [simp]:
  "\<not> NaN \<le> x" "\<not> x \<le> NaN" "\<not> NaN < x" "\<not> x < NaN"
  by (simp_all add: less_eq_pyfloat_def less_pyfloat_def split: pyfloat.splits)

lemma zero_Num [simp]: "(0::pyfloat) = Num 0"
  by (simp add: zero_pyfloat_def)

lemma one_Num [simp]: "(1::pyfloat) = Num 1"
  by (simp add: one_pyfloat_def)

lemma numeral_Num [simp]: "(numeral n :: pyfloat) = Num (numeral n)"
proof (induction n)
  case One
  show ?case by (simp only: numeral_One one_pyfloat_def)
next
  case (Bit0 n)
  have "(numeral (num.Bit0 n) :: pyfloat) = numeral n + numeral n"
    by (simp only: numeral.simps)
  also have "\<dots> = Num (numeral n + numeral n)" by (simp only: Bit0.IH Num_arith)
  also have "numeral n + numeral n = (numeral (num.Bit0 n) :: real)"
    by (simp only: numeral.simps)
  finally show ?case .
next
  case (Bit1 n)
  have "(numeral (num.Bit1 n) :: pyfloat) = numeral n + numeral n + 1"
    by (simp only: numeral.simps)
  also have "\<dots> = Num (numeral n + numeral n + 1)"
    by (simp only: Bit1.IH Num_arith one_pyfloat_def)
  also have "numeral n + numeral n + 1 = (numeral (num.Bit1 n) :: real)"
    by (simp only: numeral.simps)
  finally show ?case .
qed

lemma py_max_Num [simp]: "py_max (Num a) (Num b) = Num (max a b)"
  by (simp add: py_max_def max_def)

lemma py_max_NaN [simp]: "py_max a NaN = a" "py_max NaN b = NaN"
  by (simp_all add: py_max_def)

lemma float_of_int_numeral [simp]:
  "float_of_int (numeral n) = Num (numeral n)" "float_of_int 0 = Num 0"
  by (simp_all add: float_of_int_def)

lemma pos_not_le: "(0::pyfloat) < p \<Longrightarrow> \<not> p \<le> 0"
  by (cases p) simp_all

lemma pos_not_le_Num [simp]: "Num 0 < p \<Longrightarrow> \<not> p \<le> Num 0"
  by (cases p) simp_all

lemma le_not_less: "(a::pyfloat) \<le> b \<Longrightarrow> \<not> b < a"
  by (cases a; cases b) simp_all


subsection \<open>The result of \<open>close_trade\<close>\<close>

lemma status_reason_swap:
  "c\<lparr>fail_reason := a, challenge.status := b\<rparr> = c\<lparr>challenge.status := b, fail_reason := a\<rparr>"
  by (rule challenge.equality) simp_all

text \<open>The three rule checks of \<open>close_trade\<close>, as they stand in its definition.\<close>

lemma check_rules_chain:
  "(let daily_loss = daily_start_balance c3 - current_balance c3;
        max_daily_loss = daily_start_balance c3
          * (float_of_int (max_daily_loss_percent config) / 100);
        c4 = (if daily_loss \<ge> max_daily_loss
              then c3\<lparr>challenge.status := ''failed'',
                      fail_reason := Some (''Exceeded ''
                        @ str_int (max_daily_loss_percent config)
                        @ ''% daily loss limit'')\<rparr>
              else c3);
        total_loss = challenge.initial_balance c4 - current_balance c4;
        max_total_loss = challenge.initial_balance c4
          * (float_of_int (max_total_loss_percent config) / 100);
        c5 = (if total_loss \<ge> max_total_loss
              then c4\<lparr>challenge.status := ''failed'',
                      fail_reason := Some (''Exceeded ''
                        @ str_int (max_total_loss_percent config)
                        @ ''% total loss limit'')\<rparr>
              else c4);
        c6 = (if profit_percent c5 \<ge> float_of_int (profit_target_percent config)
              then c5\<lparr>challenge.status := ''passed''\<rparr>
              else c5)
    in K c6) = K (evaluated config c3)"
  by (cases "hit_daily config c3"; cases "hit_total config c3"; cases "hit_target config c3")
     (simp_all add: Let_def evaluated_def hit_daily_def hit_total_def hit_target_def
        daily_reason_def total_reason_def status_reason_swap)

lemma close_trade_eval:
  assumes "\<not> p \<le> 0" "trades s tid = Some t" "trade.user_id t = uid" "trade.status t = ''open''"
    "challenges s (challenge_id t) = Some c" "challenge.initial_balance c \<noteq> 0"
    "TIER_CONFIG (tier c) = Some cfg"
  shows "close_trade s uid tid p =
           (s\<lparr>challenges := (challenges s)
                  (challenge_id t \<mapsto> evaluated cfg (settled c (realized t p))),
              trades := (trades s)(tid \<mapsto> closed_trade t p)\<rparr>,
            Inr (closed_trade t p, evaluated cfg (settled c (realized t p))))"
  unfolding close_trade_def check_rules_chain
  using assms
  by (simp add: trade_first_def Let_def settled_def realized_def closed_trade_def)

lemma close_trade_inv:
  assumes "close_trade s uid tid p = (s', Inr r)"
  obtains t c cfg where
    "\<not> p \<le> 0" "trades s tid = Some t" "trade.user_id t = uid" "trade.status t = ''open''"
    "challenges s (challenge_id t) = Some c" "challenge.initial_balance c \<noteq> 0"
    "TIER_CONFIG (tier c) = Some cfg"
proof -
  note a = assms[unfolded close_trade_def check_rules_chain]
  have p: "\<not> p \<le> 0" using a by (rule_tac ccontr) simp
  obtain t where tf: "trade_first s tid uid = Some t"
    using a p by (cases "trade_first s tid uid") simp_all
  have t: "trades s tid = Some t" "trade.user_id t = uid"
    using tf by (simp_all add: trade_first_def split: option.splits if_splits)
  have op: "trade.status t = ''open''"
    using a p tf by (rule_tac ccontr) simp
  obtain c where c: "challenges s (challenge_id t) = Some c"
    using a p tf op by (cases "challenges s (challenge_id t)") (simp_all add: Let_def)
  have nz: "challenge.initial_balance c \<noteq> 0"
    using a p tf op c by (rule_tac ccontr) (simp add: Let_def)
  obtain cfg where "TIER_CONFIG (tier c) = Some cfg"
    using a p tf op c nz by (cases "TIER_CONFIG (tier c)") (simp_all add: Let_def)
  with p t op c nz show thesis by (rule that)
qed

lemma close_trade_success:
  assumes "close_trade s uid tid p = (s', Inr (t', c'))"
  obtains t c cfg where
    "\<not> p \<le> 0" "trades s tid = Some t" "trade.user_id t = uid" "trade.status t = ''open''"
    "challenges s (challenge_id t) = Some c" "challenge.initial_balance c \<noteq> 0"
    "TIER_CONFIG (tier c) = Some cfg"
    "t' = closed_trade t p" "c' = evaluated cfg (settled c (realized t p))"
    "s' = s\<lparr>challenges := (challenges s)(challenge_id t \<mapsto> c'),
            trades := (trades s)(tid \<mapsto> t')\<rparr>"
proof -
  obtain t c cfg where h:
    "\<not> p \<le> 0" "trades s tid = Some t" "trade.user_id t = uid" "trade.status t = ''open''"
    "challenges s (challenge_id t) = Some c" "challenge.initial_balance c \<noteq> 0"
    "TIER_CONFIG (tier c) = Some cfg"
    using assms by (rule close_trade_inv)
  from close_trade_eval[OF h] assms
  have "t' = closed_trade t p" "c' = evaluated cfg (settled c (realized t p))"
    "s' = s\<lparr>challenges := (challenges s)(challenge_id t \<mapsto> c'),
            trades := (trades s)(tid \<mapsto> t')\<rparr>"
    by simp_all
  with h show thesis by (rule that)
qed

lemma evaluated_fields [simp]:
  "tier (evaluated cfg c) = tier c"
  "challenge.initial_balance (evaluated cfg c) = challenge.initial_balance c"
  "current_balance (evaluated cfg c) = current_balance c"
  "highest_balance (evaluated cfg c) = highest_balance c"
  "daily_start_balance (evaluated cfg c) = daily_start_balance c"
  "profit_percent (evaluated cfg c) = profit_percent c"
  "challenge.ident (evaluated cfg c) = challenge.ident c"
  "challenge.user_id (evaluated cfg c) = challenge.user_id c"
  by (simp_all add: evaluated_def)

lemma evaluated_status:
  "challenge.status (evaluated cfg c) =
     (if hit_target cfg c then ''passed''
      else if hit_total cfg c \<or> hit_daily cfg c then ''failed''
      else challenge.status c)"
  by (simp add: evaluated_def)

lemma evaluated_fail_reason:
  "fail_reason (evaluated cfg c) =
     (if hit_total cfg c then Some (total_reason cfg)
      else if hit_daily cfg c then Some (daily_reason cfg)
      else fail_reason c)"
  by (simp add: evaluated_def)

lemma hit_evaluated [simp]:
  "hit_target cfg (evaluated cfg' c) = hit_target cfg c"
  "hit_total cfg (evaluated cfg' c) = hit_total cfg c"
  "hit_daily cfg (evaluated cfg' c) = hit_daily cfg c"
  by (simp_all add: hit_target_def hit_total_def hit_daily_def)

lemma settled_fields [simp]:
  "tier (settled c pl) = tier c"
  "challenge.initial_balance (settled c pl) = challenge.initial_balance c"
  "current_balance (settled c pl) = current_balance c + pl"
  "highest_balance (settled c pl) = py_max (highest_balance c) (current_balance c + pl)"
  "daily_start_balance (settled c pl) = daily_start_balance c"
  "challenge.status (settled c pl) = challenge.status c"
  "fail_reason (settled c pl) = fail_reason c"
  "challenge.ident (settled c pl) = challenge.ident c"
  "challenge.user_id (settled c pl) = challenge.user_id c"
  by (simp_all add: settled_def)

lemma settled_profit_percent:
  "profit_percent (settled c pl) =
     ((current_balance c + pl - challenge.initial_balance c) / challenge.initial_balance c) * 100"
  by (simp add: settled_def)

lemma closed_fields [simp]:
  "challenge_id (closed_trade t p) = challenge_id t"
  "profit_loss (closed_trade t p) = Some (realized t p)"
  "exit_price (closed_trade t p) = Some p"
  "trade.status (closed_trade t p) = ''closed''"
  "trade.user_id (closed_trade t p) = trade.user_id t"
  "trade.ident (closed_trade t p) = trade.ident t"
  "type (closed_trade t p) = type t"
  "quantity (closed_trade t p) = quantity t"
  "entry_price (closed_trade t p) = entry_price t"
  by (simp_all add: closed_trade_def)

lemma TIER_CONFIG_dom: "dom TIER_CONFIG = {''starter'', ''pro'', ''elite''}"
  by (auto simp: TIER_CONFIG_def split: if_splits)


subsection \<open>The example states\<close>

lemma db_of_lookup [simp]:
  "challenges (db_of c ts) = [1 \<mapsto> c]"
  "trades (db_of c ts) = map_of (map (\<lambda>t. (trade.ident t, t)) ts)"
  by (simp_all add: db_of_def)

lemma position_fields [simp]:
  "trade.ident (position k side qty entry) = k"
  "challenge_id (position k side qty entry) = 1"
  "trade.user_id (position k side qty entry) = 1"
  "type (position k side qty entry) = side"
  "quantity (position k side qty entry) = qty"
  "entry_price (position k side qty entry) = entry"
  "trade.status (position k side qty entry) = ''open''"
  "profit_loss (position k side qty entry) = None"
  "exit_price (position k side qty entry) = None"
  by (simp_all add: position_def)

lemma starter_fields [simp]:
  "tier (starter cur high daily st reason) = ''starter''"
  "challenge.initial_balance (starter cur high daily st reason) = 10000"
  "current_balance (starter cur high daily st reason) = cur"
  "highest_balance (starter cur high daily st reason) = high"
  "daily_start_balance (starter cur high daily st reason) = daily"
  "challenge.status (starter cur high daily st reason) = st"
  "fail_reason (starter cur high daily st reason) = reason"
  "challenge.ident (starter cur high daily st reason) = 1"
  "challenge.user_id (starter cur high daily st reason) = 1"
  by (simp_all add: starter_def)

lemma TIER_CONFIG_starter: "TIER_CONFIG ''starter'' = Some starter_config"
  by (simp add: TIER_CONFIG_def starter_config_def)

lemma close_starter_position:
  assumes "0 < p"
    and "c = starter cur high daily st reason" and "t = position 1 side qty entry"
  shows "close_trade (db_of c [t]) 1 1 p =
     ((db_of c [t])\<lparr>challenges := (challenges (db_of c [t]))
                        (1 \<mapsto> evaluated starter_config (settled c (realized t p))),
                    trades := (trades (db_of c [t]))(1 \<mapsto> closed_trade t p)\<rparr>,
      Inr (closed_trade t p, evaluated starter_config (settled c (realized t p))))"
proof -
  let ?s = "db_of c [t]"
  have 1: "trades ?s 1 = Some t" by (simp add: assms)
  have 2: "trade.user_id t = 1" "trade.status t = ''open''" by (simp_all add: assms)
  have 3: "challenges ?s (challenge_id t) = Some c" by (simp add: assms)
  have 4: "challenge.initial_balance c \<noteq> 0" by (simp add: assms)
  have 5: "TIER_CONFIG (tier c) = Some starter_config"
    by (simp add: TIER_CONFIG_starter assms)
  show ?thesis
    using close_trade_eval[OF pos_not_le[OF assms(1)] 1 2 3 4 5] by (simp add: assms)
qed

lemma starter_config_fields [simp]:
  "max_daily_loss_percent starter_config = 5"
  "max_total_loss_percent starter_config = 10"
  "profit_target_percent starter_config = 10"
  by (simp_all add: starter_config_def)

lemma str_int_5: "str_int 5 = ''5''"
  by (simp add: str_int_def str_nat.simps digit_def)

lemma str_int_10: "str_int 10 = ''10''"
  by (simp add: str_int_def str_nat.simps digit_def)

lemma starter_reasons:
  "daily_reason starter_config = ''Exceeded 5% daily loss limit''"
  "total_reason starter_config = ''Exceeded 10% total loss limit''"
  by (simp_all add: daily_reason_def total_reason_def str_int_5 str_int_10)

text \<open>The history, evaluated.\<close>

lemma lower_starter: "lower ''starter'' = ''starter''" "lower ''STARTER'' = ''starter''"
  by (simp_all add: lower_def lower_char_def)

lemma lower_buy: "lower ''buy'' = ''buy''"
  by (simp add: lower_def lower_char_def)

lemma upper_aapl: "upper ''aapl'' = ''AAPL''"
  by (simp add: upper_def upper_char_def)

lemma create_starter:
  assumes "lower tr = ''starter''"
  shows "create_challenge new_db 1 tr (Some ''paypal'') =
     (db_of (starter 10000 10000 10000 ''active'' None) [],
      Inr (starter 10000 10000 10000 ''active'' None))"
  by (simp add: create_challenge_def assms TIER_CONFIG_starter starter_config_def
        new_db_def db_of_def starter_def Let_def)

lemma execute_on_starter:
  assumes "c = starter cur high daily ''active'' reason"
    and "0 < qty" "0 < price_in" "qty * price_in \<le> cur"
  shows "execute_trade (db_of c ts) 1 1 ''aapl'' ''buy'' qty price_in =
     (db_of c (position (Suc (length ts)) ''buy'' qty price_in # ts),
      Inr (position (Suc (length ts)) ''buy'' qty price_in))"
  using assms(2-)
  by (cases qty; cases price_in; cases cur)
     (simp_all add: execute_trade_def lower_buy upper_aapl challenge_first_def assms(1)
        db_of_def position_def Let_def)

lemma opened_db_eq:
  "opened_db = db_of (starter 10000 10000 10000 ''active'' None)
                 [position 2 ''buy'' 10 500, position 1 ''buy'' 10 500]"
  proof -
  let ?c = "starter 10000 10000 10000 ''active'' None"
  have 1: "fst (create_challenge new_db 1 ''starter'' (Some ''paypal'')) = db_of ?c []"
    by (simp add: create_starter lower_starter del: One_nat_def)
  have 2: "fst (execute_trade (db_of ?c []) 1 1 ''aapl'' ''buy'' 10 500)
             = db_of ?c [position 1 ''buy'' 10 500]"
    by (subst execute_on_starter[OF refl]) simp_all
  have 3: "fst (execute_trade (db_of ?c [position 1 ''buy'' 10 500]) 1 1 ''aapl'' ''buy'' 10 500)
             = db_of ?c [position 2 ''buy'' 10 500, position 1 ''buy'' 10 500]"
    by (subst execute_on_starter[OF refl]) (simp_all add: numeral_2_eq_2)
  show ?thesis unfolding opened_db_def Let_def 1 2 3 ..
qed

lemma failed_db_eq:
  "failed_db = db_of (starter 8900 10000 10000 ''failed'' (Some ''Exceeded 10% total loss limit''))
                 [position 2 ''buy'' 10 500, closed_trade (position 1 ''buy'' 10 500) 390]"
proof -
  let ?c = "starter 10000 10000 10000 ''active'' None"
  let ?t = "position 1 ''buy'' 10 500"
  have h: "\<not> (390::pyfloat) \<le> 0" "trades opened_db 1 = Some ?t" "trade.user_id ?t = 1"
    "trade.status ?t = ''open''" "challenges opened_db (challenge_id ?t) = Some ?c"
    "challenge.initial_balance ?c \<noteq> 0" "TIER_CONFIG (tier ?c) = Some starter_config"
    by (simp_all add: opened_db_eq TIER_CONFIG_starter)
  have e: "evaluated starter_config (settled ?c (realized ?t 390))
         = starter 8900 10000 10000 ''failed'' (Some ''Exceeded 10% total loss limit'')"
    by (simp add: evaluated_def settled_def realized_def hit_daily_def hit_total_def
          hit_target_def starter_reasons starter_def)
  show ?thesis
    unfolding failed_db_def close_trade_eval[OF h] e
    by (simp add: opened_db_eq db_of_def fun_eq_iff)
qed


lemma failed_db_challenge:
  "challenges failed_db 1
     = Some (starter 8900 10000 10000 ''failed'' (Some ''Exceeded 10% total loss limit''))"
  by (simp add: failed_db_eq)

lemma failed_db_trades:
  "trades failed_db 1 = Some (closed_trade (position 1 ''buy'' 10 500) 390)"
  "trades failed_db 2 = Some (position 2 ''buy'' 10 500)"
  by (simp_all add: failed_db_eq)


lemma first_close:
  "close_trade opened_db 1 1 390 =
     (failed_db, Inr (closed_trade (position 1 ''buy'' 10 500) 390,
        starter 8900 10000 10000 ''failed'' (Some ''Exceeded 10% total loss limit'')))"
proof -
  let ?c = "starter 10000 10000 10000 ''active'' None"
  let ?t = "position 1 ''buy'' 10 500"
  have h: "\<not> (390::pyfloat) \<le> 0" "trades opened_db 1 = Some ?t" "trade.user_id ?t = 1"
    "trade.status ?t = ''open''" "challenges opened_db (challenge_id ?t) = Some ?c"
    "challenge.initial_balance ?c \<noteq> 0" "TIER_CONFIG (tier ?c) = Some starter_config"
    by (simp_all add: opened_db_eq TIER_CONFIG_starter)
  have e: "evaluated starter_config (settled ?c (realized ?t 390))
         = starter 8900 10000 10000 ''failed'' (Some ''Exceeded 10% total loss limit'')"
    by (simp add: evaluated_def settled_def realized_def hit_daily_def hit_total_def
          hit_target_def starter_reasons starter_def)
  have "snd (close_trade opened_db 1 1 390) = Inr (closed_trade ?t 390,
        starter 8900 10000 10000 ''failed'' (Some ''Exceeded 10% total loss limit''))"
    unfolding close_trade_eval[OF h] e by simp
  then show ?thesis unfolding failed_db_def by (simp add: prod_eq_iff del: One_nat_def)
qed

section \<open>The rule checks of a settlement\<close>

text \<open>
  C1. In the risk evaluation of \<open>close_trade\<close> the profit-target check comes last and is
  not guarded by the loss checks. Closing an open trade at an exit price above zero, on a
  challenge of any status, succeeds; if the \<open>profit_percent\<close> that the settlement leaves is
  at least the tier's \<open>profit_target_percent\<close>, the challenge that is stored and returned
  has status \<open>'passed'\<close>, whatever the daily-loss and the total-loss check did before.
\<close>

theorem profit_target_overrides_loss_checks:
  assumes "0 < p" "trades s tid = Some t" "trade.user_id t = uid" "trade.status t = ''open''"
    and "challenges s (challenge_id t) = Some c" "challenge.initial_balance c \<noteq> 0"
    and "TIER_CONFIG (tier c) = Some cfg"
    and "((current_balance c + realized t p - challenge.initial_balance c)
            / challenge.initial_balance c) * 100
         \<ge> float_of_int (profit_target_percent cfg)"
  shows "\<exists>s' t' c'. close_trade s uid tid p = (s', Inr (t', c'))
     \<and> challenges s' (challenge_id t) = Some c'
     \<and> profit_loss t' = Some (realized t p)
     \<and> profit_percent c' = ((current_balance c + realized t p - challenge.initial_balance c)
                               / challenge.initial_balance c) * 100
     \<and> challenge.status c' = ''passed''"
proof -
  have "hit_target cfg (settled c (realized t p))"
    using assms(8) by (simp add: hit_target_def settled_profit_percent)
  then show ?thesis
    unfolding close_trade_eval[OF pos_not_le[OF assms(1)] assms(2-7)]
    by (simp add: evaluated_status settled_profit_percent)
qed

text \<open>
  An active starter challenge whose day started at 20000 loses 8000 on one trade: the
  daily-loss check fires (8000 of 20000) and writes its reason, the balance of 12000 is
  still 20 percent above the initial 10000, and the challenge goes from \<open>'active'\<close> to
  \<open>'passed'\<close>.
\<close>

theorem profit_target_overrides_loss_checks_witness:
  "challenge.status (starter 20000 20000 20000 ''active'' None) = ''active''
   \<and> (\<exists>s' t' c'.
     close_trade (db_of (starter 20000 20000 20000 ''active'' None) [position 1 ''buy'' 10 1000])
       1 1 200 = (s', Inr (t', c'))
     \<and> current_balance c' = 12000
     \<and> daily_start_balance c' - current_balance c'
           \<ge> daily_start_balance c' * (float_of_int 5 / 100)
     \<and> fail_reason c' = Some ''Exceeded 5% daily loss limit''
     \<and> challenge.status c' = ''passed'')"
proof -
  define c where "c = starter 20000 20000 20000 ''active'' None"
  define t where "t = position 1 ''buy'' 10 1000"
  define c' where "c' = evaluated starter_config (settled c (realized t 200))"
  have h: "(0::pyfloat) < 200" "trades (db_of c [t]) 1 = Some t" "trade.user_id t = 1"
    "trade.status t = ''open''" "challenges (db_of c [t]) (challenge_id t) = Some c"
    "challenge.initial_balance c \<noteq> 0" "TIER_CONFIG (tier c) = Some starter_config"
    "((current_balance c + realized t 200 - challenge.initial_balance c)
            / challenge.initial_balance c) * 100
         \<ge> float_of_int (profit_target_percent starter_config)"
    by (simp_all add: c_def t_def TIER_CONFIG_starter realized_def)
  have run: "close_trade (db_of c [t]) 1 1 200 =
     ((db_of c [t])\<lparr>challenges := (challenges (db_of c [t]))(1 \<mapsto> c'),
                    trades := (trades (db_of c [t]))(1 \<mapsto> closed_trade t 200)\<rparr>,
      Inr (closed_trade t 200, c'))"
    unfolding c'_def by (rule close_starter_position[OF _ c_def t_def]) simp
  from profit_target_overrides_loss_checks[OF h]
  have st: "challenge.status c' = ''passed''" unfolding run by simp
  have cur: "current_balance c' = 12000"
    by (simp add: c'_def c_def t_def realized_def)
  have daily: "daily_start_balance c' - current_balance c'
           \<ge> daily_start_balance c' * (float_of_int 5 / 100)"
    by (simp add: c'_def c_def t_def realized_def)
  have fr: "fail_reason c' = Some ''Exceeded 5% daily loss limit''"
    by (simp add: c'_def c_def t_def realized_def evaluated_fail_reason hit_total_def
          hit_daily_def starter_reasons)
  have a: "challenge.status c = ''active''" by (simp add: c_def)
  from a run cur daily fr st show ?thesis unfolding c_def t_def by blast
qed

text \<open>
  C10. The profit-target check writes the status and nothing else. Closing an open trade at
  an exit price above zero with a settlement that reaches the profit target succeeds and
  gives the status \<open>'passed'\<close>, while \<open>fail_reason\<close> is what the loss checks made of it: the
  message of the total-loss check if it fired, else the message of the daily-loss check if
  it fired, else the reason the challenge had before. So when a loss check fired in the same
  settlement, the challenge is \<open>'passed'\<close> and carries a failure reason.
\<close>

theorem passed_keeps_fail_reason:
  assumes "0 < p" "trades s tid = Some t" "trade.user_id t = uid" "trade.status t = ''open''"
    and "challenges s (challenge_id t) = Some c" "challenge.initial_balance c \<noteq> 0"
    and "TIER_CONFIG (tier c) = Some cfg"
    and "((current_balance c + realized t p - challenge.initial_balance c)
            / challenge.initial_balance c) * 100
         \<ge> float_of_int (profit_target_percent cfg)"
  shows "\<exists>s' t' c'. close_trade s uid tid p = (s', Inr (t', c'))
     \<and> challenges s' (challenge_id t) = Some c'
     \<and> current_balance c' = current_balance c + realized t p
     \<and> challenge.status c' = ''passed''
     \<and> fail_reason c' =
         (if challenge.initial_balance c - current_balance c'
               \<ge> challenge.initial_balance c * (float_of_int (max_total_loss_percent cfg) / 100)
          then Some (''Exceeded '' @ str_int (max_total_loss_percent cfg) @ ''% total loss limit'')
          else if daily_start_balance c - current_balance c'
               \<ge> daily_start_balance c * (float_of_int (max_daily_loss_percent cfg) / 100)
          then Some (''Exceeded '' @ str_int (max_daily_loss_percent cfg) @ ''% daily loss limit'')
          else fail_reason c)
     \<and> (challenge.initial_balance c - current_balance c'
               \<ge> challenge.initial_balance c * (float_of_int (max_total_loss_percent cfg) / 100)
          \<or> daily_start_balance c - current_balance c'
               \<ge> daily_start_balance c * (float_of_int (max_daily_loss_percent cfg) / 100)
          \<longrightarrow> fail_reason c' \<noteq> None)"
proof -
  have "hit_target cfg (settled c (realized t p))"
    using assms(8) by (simp add: hit_target_def settled_profit_percent)
  then show ?thesis
    unfolding close_trade_eval[OF pos_not_le[OF assms(1)] assms(2-7)]
    by (simp add: evaluated_status evaluated_fail_reason hit_total_def hit_daily_def
          total_reason_def daily_reason_def)
qed

text \<open>
  An active starter challenge without a failure reason, whose day started at 20000, closes
  a short position of 5 at 400 at the price 2000 and loses 8000: it ends \<open>'passed'\<close> with
  the reason of the daily-loss check.
\<close>

theorem passed_keeps_fail_reason_witness:
  "challenge.status (starter 20000 20000 20000 ''active'' None) = ''active''
   \<and> fail_reason (starter 20000 20000 20000 ''active'' None) = None
   \<and> (\<exists>s' t' c'.
     close_trade (db_of (starter 20000 20000 20000 ''active'' None) [position 1 ''sell'' 5 400])
       1 1 2000 = (s', Inr (t', c'))
     \<and> current_balance c' = 12000
     \<and> challenge.status c' = ''passed''
     \<and> fail_reason c' = Some ''Exceeded 5% daily loss limit'')"
proof -
  define c where "c = starter 20000 20000 20000 ''active'' None"
  define t where "t = position 1 ''sell'' 5 400"
  have h: "(0::pyfloat) < 2000" "trades (db_of c [t]) 1 = Some t" "trade.user_id t = 1"
    "trade.status t = ''open''" "challenges (db_of c [t]) (challenge_id t) = Some c"
    "challenge.initial_balance c \<noteq> 0" "TIER_CONFIG (tier c) = Some starter_config"
    "((current_balance c + realized t 2000 - challenge.initial_balance c)
            / challenge.initial_balance c) * 100
         \<ge> float_of_int (profit_target_percent starter_config)"
    by (simp_all add: c_def t_def TIER_CONFIG_starter realized_def)
  from passed_keeps_fail_reason[OF h]
  obtain s' t' c' where r: "close_trade (db_of c [t]) 1 1 2000 = (s', Inr (t', c'))"
    "current_balance c' = current_balance c + realized t 2000"
    "challenge.status c' = ''passed''"
    "fail_reason c' =
         (if challenge.initial_balance c - current_balance c'
               \<ge> challenge.initial_balance c
                   * (float_of_int (max_total_loss_percent starter_config) / 100)
          then Some (''Exceeded '' @ str_int (max_total_loss_percent starter_config)
                     @ ''% total loss limit'')
          else if daily_start_balance c - current_balance c'
               \<ge> daily_start_balance c
                   * (float_of_int (max_daily_loss_percent starter_config) / 100)
          then Some (''Exceeded '' @ str_int (max_daily_loss_percent starter_config)
                     @ ''% daily loss limit'')
          else fail_reason c)"
    by blast
  have cur: "current_balance c' = 12000"
    by (simp add: r(2) c_def t_def realized_def)
  have fr: "fail_reason c' = Some ''Exceeded 5% daily loss limit''"
    unfolding r(4) cur by (simp add: c_def str_int_5)
  have a: "challenge.status c = ''active''" "fail_reason c = None" by (simp_all add: c_def)
  from a r(1,3) cur fr show ?thesis unfolding c_def t_def by blast
qed

text \<open>
  C3. The daily-loss limit is inclusive. On a starter challenge with initial, daily start and
  current balance 10000, closing a trade whose realized profit or loss is exactly \<open>-500\<close>
  makes the daily loss equal to the limit of 5 percent of 10000: the settlement succeeds,
  the status becomes \<open>'failed'\<close> and the reason is the message of the 5 percent daily loss
  limit.
\<close>

theorem daily_loss_boundary_inclusive:
  assumes "0 < p" "trades s tid = Some t" "trade.user_id t = uid" "trade.status t = ''open''"
    and "challenges s (challenge_id t) = Some c"
    and "tier c = ''starter''"
    and "challenge.initial_balance c = 10000" "daily_start_balance c = 10000"
    and "current_balance c = 10000"
    and "(if type t = ''buy'' then (p - entry_price t) * quantity t
          else (entry_price t - p) * quantity t) = - 500"
  shows "\<exists>s' t' c'. close_trade s uid tid p = (s', Inr (t', c'))
           \<and> challenges s' (challenge_id t) = Some c'
           \<and> profit_loss t' = Some (- 500)
           \<and> daily_start_balance c' - current_balance c' = 500
           \<and> challenge.status c' = ''failed''
           \<and> fail_reason c' = Some ''Exceeded 5% daily loss limit''"
proof -
  have nz: "challenge.initial_balance c \<noteq> 0" using assms(7) by simp
  have cfg: "TIER_CONFIG (tier c) = Some starter_config"
    using assms(6) by (simp add: TIER_CONFIG_starter)
  have pl: "realized t p = - 500" using assms(10) by (simp add: realized_def)
  have d: "hit_daily starter_config (settled c (Num (- 500)))"
    by (simp add: hit_daily_def assms)
  have nt: "\<not> hit_total starter_config (settled c (Num (- 500)))"
    by (simp add: hit_total_def assms)
  have ng: "\<not> hit_target starter_config (settled c (Num (- 500)))"
    by (simp add: hit_target_def settled_profit_percent assms)
  note run = close_trade_eval[OF pos_not_le[OF assms(1)] assms(2-5) nz cfg]
  show ?thesis
    unfolding run
    by (simp add: evaluated_status evaluated_fail_reason d nt ng starter_reasons pl assms(9,8))
qed

text \<open>A buy of 10 at 100 on a new starter challenge, closed at 50.\<close>

theorem daily_loss_boundary_inclusive_witness:
  "\<exists>s' t' c'.
     close_trade (db_of (starter 10000 10000 10000 ''active'' None) [position 1 ''buy'' 10 100])
       1 1 50 = (s', Inr (t', c'))
     \<and> profit_loss t' = Some (- 500)
     \<and> challenge.status c' = ''failed''
     \<and> fail_reason c' = Some ''Exceeded 5% daily loss limit''"
proof -
  define c where "c = starter 10000 10000 10000 ''active'' None"
  define t where "t = position 1 ''buy'' 10 100"
  have h: "(0::pyfloat) < 50" "trades (db_of c [t]) 1 = Some t" "trade.user_id t = 1"
    "trade.status t = ''open''" "challenges (db_of c [t]) (challenge_id t) = Some c"
    "tier c = ''starter''" "challenge.initial_balance c = 10000" "daily_start_balance c = 10000"
    "current_balance c = 10000"
    "(if type t = ''buy'' then (50 - entry_price t) * quantity t
          else (entry_price t - 50) * quantity t) = - 500"
    by (simp_all add: c_def t_def)
  from daily_loss_boundary_inclusive[OF h]
  show ?thesis unfolding c_def t_def by blast
qed





section \<open>The realized profit or loss\<close>

text \<open>
  C5. Closing an open trade at an exit price above zero succeeds (on a challenge of a
  configured tier with a non-zero initial balance) and stores
  \<open>profit_loss = (exit_price - entry_price) * quantity\<close> for a buy and
  \<open>profit_loss = (entry_price - exit_price) * quantity\<close> for a sell. In particular: buy,
  entry 100, exit 110, quantity 10 gives 100; sell, entry 100, exit 90, quantity 10 gives
  100; sell, entry 100, exit 110, quantity 10 gives -100.
\<close>

theorem settlement_profit_loss:
  assumes "0 < p" "trades s tid = Some t" "trade.user_id t = uid" "trade.status t = ''open''"
    and "challenges s (challenge_id t) = Some c" "challenge.initial_balance c \<noteq> 0"
    and "TIER_CONFIG (tier c) = Some cfg"
  shows "\<exists>s' t' c'. close_trade s uid tid p = (s', Inr (t', c'))
     \<and> trades s' tid = Some t'
     \<and> (type t = ''buy'' \<longrightarrow> profit_loss t' = Some ((p - entry_price t) * quantity t))
     \<and> (type t = ''sell'' \<longrightarrow> profit_loss t' = Some ((entry_price t - p) * quantity t))
     \<and> (type t = ''buy'' \<and> entry_price t = 100 \<and> p = 110 \<and> quantity t = 10
          \<longrightarrow> profit_loss t' = Some 100)
     \<and> (type t = ''sell'' \<and> entry_price t = 100 \<and> p = 90 \<and> quantity t = 10
          \<longrightarrow> profit_loss t' = Some 100)
     \<and> (type t = ''sell'' \<and> entry_price t = 100 \<and> p = 110 \<and> quantity t = 10
          \<longrightarrow> profit_loss t' = Some (- 100))"
  unfolding close_trade_eval[OF pos_not_le[OF assms(1)] assms(2-)]
  by (simp add: realized_def)

text \<open>The three examples, on a new starter challenge.\<close>

theorem settlement_profit_loss_witness:
  "(\<exists>s' t' c'.
      close_trade (db_of (starter 10000 10000 10000 ''active'' None) [position 1 ''buy'' 10 100])
        1 1 110 = (s', Inr (t', c')) \<and> profit_loss t' = Some 100)
   \<and> (\<exists>s' t' c'.
      close_trade (db_of (starter 10000 10000 10000 ''active'' None) [position 1 ''sell'' 10 100])
        1 1 90 = (s', Inr (t', c')) \<and> profit_loss t' = Some 100)
   \<and> (\<exists>s' t' c'.
      close_trade (db_of (starter 10000 10000 10000 ''active'' None) [position 1 ''sell'' 10 100])
        1 1 110 = (s', Inr (t', c')) \<and> profit_loss t' = Some (- 100))"
proof -
  define c where "c = starter 10000 10000 10000 ''active'' None"
  define b where "b = position 1 ''buy'' 10 100"
  define a where "a = position 1 ''sell'' 10 100"
  have hc: "challenge.initial_balance c \<noteq> 0" "TIER_CONFIG (tier c) = Some starter_config"
    by (simp_all add: c_def TIER_CONFIG_starter)
  have hb: "trades (db_of c [b]) 1 = Some b" "trade.user_id b = 1" "trade.status b = ''open''"
    "challenges (db_of c [b]) (challenge_id b) = Some c"
    by (simp_all add: b_def)
  have ha: "trades (db_of c [a]) 1 = Some a" "trade.user_id a = 1" "trade.status a = ''open''"
    "challenges (db_of c [a]) (challenge_id a) = Some c"
    by (simp_all add: a_def)
  have 1: "\<exists>s' t' c'. close_trade (db_of c [b]) 1 1 110 = (s', Inr (t', c'))
             \<and> profit_loss t' = Some 100"
    using settlement_profit_loss[OF _ hb hc, of 110] by (simp add: b_def) blast
  have 2: "\<exists>s' t' c'. close_trade (db_of c [a]) 1 1 90 = (s', Inr (t', c'))
             \<and> profit_loss t' = Some 100"
    using settlement_profit_loss[OF _ ha hc, of 90] by (simp add: a_def) blast
  have 3: "\<exists>s' t' c'. close_trade (db_of c [a]) 1 1 110 = (s', Inr (t', c'))
             \<and> profit_loss t' = Some (- 100)"
    using settlement_profit_loss[OF _ ha hc, of 110] by (simp add: a_def) blast
  from 1 2 3 show ?thesis unfolding c_def a_def b_def by blast
qed

section \<open>Settlements on a challenge that has passed or failed\<close>




section \<open>The highest balance\<close>

text \<open>A request that is refused leaves the database as it was.\<close>

lemma close_trade_error:
  assumes "close_trade s uid tid p = (s', Inl e)"
  shows "s' = s"
  using assms unfolding close_trade_def check_rules_chain
  by (simp add: Let_def split: if_splits option.splits)

text \<open>
  A highest balance that is a number stays a number and does not decrease, in one
  settlement and along every sequence of requests.
\<close>

lemma py_max_Num_left: "\<exists>a'. py_max (Num a) x = Num a' \<and> a \<le> a'"
  by (cases x) simp_all

lemma close_trade_step:
  assumes "challenges s cid = Some c" "highest_balance c = Num a"
  shows "\<exists>c' a'. challenges (fst (close_trade s uid tid p)) cid = Some c'
           \<and> highest_balance c' = Num a' \<and> a \<le> a'"
proof (cases "close_trade s uid tid p")
  case (Pair s' r)
  show ?thesis
  proof (cases r)
    case (Inl e)
    with Pair have "s' = s" by (simp add: close_trade_error)
    with Pair assms show ?thesis by simp
  next
    case (Inr tc)
    obtain t' c' where tc: "tc = (t', c')" by (cases tc)
    from Pair Inr tc have run: "close_trade s uid tid p = (s', Inr (t', c'))" by simp
    then obtain t c0 cfg where h:
      "challenges s (challenge_id t) = Some c0"
      "c' = evaluated cfg (settled c0 (realized t p))"
      "s' = s\<lparr>challenges := (challenges s)(challenge_id t \<mapsto> c'),
              trades := (trades s)(tid \<mapsto> t')\<rparr>"
      by (rule close_trade_success)
    show ?thesis
    proof (cases "cid = challenge_id t")
      case True
      with h(1) assms have "c0 = c" by simp
      with True assms(2) py_max_Num_left[of a "current_balance c + realized t p"]
      show ?thesis by (simp add: run h(3)) (simp add: h(2))
    next
      case False
      with assms show ?thesis by (simp add: run h(3))
    qed
  qed
qed

lemma highest_balance_never_decreases:
  assumes "challenges s cid = Some c" "highest_balance c = Num a"
  shows "\<exists>c' a'. challenges (close_all s rs) cid = Some c'
           \<and> highest_balance c' = Num a' \<and> a \<le> a'"
  using assms
proof (induction rs arbitrary: s c a)
  case Nil
  then show ?case by simp
next
  case (Cons r rs)
  obtain uid tid p where r: "r = (uid, tid, p)" by (cases r)
  from close_trade_step[OF Cons.prems, of uid tid p]
  obtain c1 a1 where c1: "challenges (fst (close_trade s uid tid p)) cid = Some c1"
    "highest_balance c1 = Num a1" "a \<le> a1"
    by blast
  from Cons.IH[OF c1(1,2)]
  obtain c' a' where "challenges (close_all (fst (close_trade s uid tid p)) rs) cid = Some c'"
    "highest_balance c' = Num a'" "a1 \<le> a'"
    by blast
  with c1(3) show ?case by (auto simp: r)
qed

text \<open>
  After a settlement that leaves numbers, the current balance is at most the highest
  balance.
\<close>

lemma settled_number_below_highest:
  assumes "close_trade s uid tid p = (s', Inr (t', c'))"
    and "current_balance c' = Num x" "highest_balance c' = Num h"
  shows "x \<le> h"
proof -
  from assms(1) obtain t c cfg where c': "c' = evaluated cfg (settled c (realized t p))"
    by (rule close_trade_success)
  from assms(2,3) show ?thesis
    unfolding c' by (cases "highest_balance c") simp_all
qed

text \<open>
  C6. For every sequence of settlements \<open>highest_balance\<close> never decreases, and after every
  settlement \<open>highest_balance >= current_balance\<close>. The first half holds and the second
  holds after every settlement that leaves numbers (the lemmas above). But the check
  \<open>exit_price <= 0\<close> lets the exit price NaN through, which \<open>float('nan')\<close> makes of the text
  \<open>nan\<close> in the request: the realized profit is NaN, \<open>current_balance\<close> becomes NaN,
  \<open>max(highest_balance, current_balance)\<close> keeps the old highest balance, no rule check
  fires and the settlement is committed. In \<open>opened_db\<close>, closing the first trade at NaN
  leaves the active challenge with the highest balance 10000 and the current balance NaN,
  for which \<open>highest_balance >= current_balance\<close> is false.
\<close>

theorem nan_exit_price_settlement:
  "\<not> (NaN :: pyfloat) \<le> 0
   \<and> snd (close_trade opened_db 1 1 NaN)
       = Inr (closed_trade (position 1 ''buy'' 10 500) NaN,
              starter NaN 10000 10000 ''active'' None)
   \<and> challenges (fst (close_trade opened_db 1 1 NaN)) 1
       = Some (starter NaN 10000 10000 ''active'' None)
   \<and> highest_balance (starter NaN 10000 10000 ''active'' None) = 10000
   \<and> current_balance (starter NaN 10000 10000 ''active'' None) = NaN
   \<and> \<not> highest_balance (starter NaN 10000 10000 ''active'' None)
         \<ge> current_balance (starter NaN 10000 10000 ''active'' None)"
proof -
  let ?c = "starter 10000 10000 10000 ''active'' None"
  let ?t = "position 1 ''buy'' 10 500"
  have h: "\<not> (NaN :: pyfloat) \<le> 0" "trades opened_db 1 = Some ?t" "trade.user_id ?t = 1"
    "trade.status ?t = ''open''" "challenges opened_db (challenge_id ?t) = Some ?c"
    "challenge.initial_balance ?c \<noteq> 0" "TIER_CONFIG (tier ?c) = Some starter_config"
    by (simp_all add: opened_db_eq TIER_CONFIG_starter)
  have e: "evaluated starter_config (settled ?c (realized ?t NaN))
         = starter NaN 10000 10000 ''active'' None"
    by (simp add: evaluated_def settled_def realized_def hit_daily_def hit_total_def
          hit_target_def starter_def)
  show ?thesis
    unfolding close_trade_eval[OF h] e by (simp del: One_nat_def)
qed

section \<open>Creating a challenge\<close>

text \<open>
  The tier name of the request is lower-cased before it is looked up, so a name that is
  not a key of \<open>TIER_CONFIG\<close> can still be accepted: \<open>'STARTER'\<close> creates a starter
  challenge.
\<close>

theorem unknown_tier_counterexample:
  "''STARTER'' \<notin> dom TIER_CONFIG
   \<and> create_challenge new_db 1 ''STARTER'' (Some ''paypal'')
       = (db_of (starter 10000 10000 10000 ''active'' None) [],
          Inr (starter 10000 10000 10000 ''active'' None))"
  by (simp add: create_starter lower_starter TIER_CONFIG_dom del: One_nat_def)

text \<open>
  C7, as the code has it. When the lower-cased tier name is configured (and the user
  exists), \<open>create_challenge\<close> stores and returns a challenge of that tier whose current,
  highest and daily start balance equal its initial balance, the one of the tier, and whose
  status is \<open>'active'\<close>. When the lower-cased tier name is not one of \<open>starter\<close>, \<open>pro\<close>,
  \<open>elite\<close>, the request is refused with the invalid-tier error and the database is
  unchanged. The configured names are their own lower-case form.
\<close>

theorem create_challenge_postcondition:
  "(TIER_CONFIG (lower tr) = Some cfg \<and> uid \<in> users s \<longrightarrow>
      (\<exists>c. create_challenge s uid tr pm =
              (s\<lparr>challenges := (challenges s)(next_challenge_id s \<mapsto> c),
                 next_challenge_id := Suc (next_challenge_id s)\<rparr>, Inr c)
          \<and> tier c = lower tr
          \<and> challenge.initial_balance c = float_of_int (tier_config.initial_balance cfg)
          \<and> current_balance c = challenge.initial_balance c
          \<and> highest_balance c = challenge.initial_balance c
          \<and> daily_start_balance c = challenge.initial_balance c
          \<and> challenge.status c = ''active''))
   \<and> (lower tr \<notin> dom TIER_CONFIG \<longrightarrow>
        create_challenge s uid tr pm =
          (s, Inl (BadRequest ''Invalid tier. Must be starter, pro, or elite'')))
   \<and> (tr \<in> dom TIER_CONFIG \<longrightarrow> lower tr = tr)
   \<and> dom TIER_CONFIG = {''starter'', ''pro'', ''elite''}"
proof (intro conjI impI)
  assume "TIER_CONFIG (lower tr) = Some cfg \<and> uid \<in> users s"
  then show "\<exists>c. create_challenge s uid tr pm =
              (s\<lparr>challenges := (challenges s)(next_challenge_id s \<mapsto> c),
                 next_challenge_id := Suc (next_challenge_id s)\<rparr>, Inr c)
          \<and> tier c = lower tr
          \<and> challenge.initial_balance c = float_of_int (tier_config.initial_balance cfg)
          \<and> current_balance c = challenge.initial_balance c
          \<and> highest_balance c = challenge.initial_balance c
          \<and> daily_start_balance c = challenge.initial_balance c
          \<and> challenge.status c = ''active''"
    by (simp add: create_challenge_def Let_def)
next
  assume "lower tr \<notin> dom TIER_CONFIG"
  then have "TIER_CONFIG (lower tr) = None" by (simp add: domIff)
  then show "create_challenge s uid tr pm =
          (s, Inl (BadRequest ''Invalid tier. Must be starter, pro, or elite''))"
    by (simp add: create_challenge_def)
next
  assume "tr \<in> dom TIER_CONFIG"
  then have "tr = ''starter'' \<or> tr = ''pro'' \<or> tr = ''elite''"
    by (simp add: TIER_CONFIG_dom)
  then show "lower tr = tr" by (elim disjE) (simp_all add: lower_def lower_char_def)
next
  show "dom TIER_CONFIG = {''starter'', ''pro'', ''elite''}" by (rule TIER_CONFIG_dom)
qed

text \<open>The tiers \<open>'Starter'\<close>, \<open>'gold'\<close> and \<open>'pro'\<close>.\<close>

theorem create_challenge_postcondition_witness:
  "(TIER_CONFIG (lower ''Starter'') = Some starter_config \<and> 1 \<in> users new_db)
   \<and> (\<exists>c s'. create_challenge new_db 1 ''Starter'' None = (s', Inr c)
          \<and> tier c = ''starter''
          \<and> challenge.initial_balance c = 10000 \<and> current_balance c = 10000
          \<and> highest_balance c = 10000 \<and> daily_start_balance c = 10000
          \<and> challenge.status c = ''active'')
   \<and> lower ''gold'' \<notin> dom TIER_CONFIG
   \<and> create_challenge new_db 1 ''gold'' None =
          (new_db, Inl (BadRequest ''Invalid tier. Must be starter, pro, or elite''))
   \<and> ''pro'' \<in> dom TIER_CONFIG \<and> lower ''pro'' = ''pro''"
proof -
  have l: "lower ''Starter'' = ''starter''" "lower ''gold'' = ''gold''"
    by (simp_all add: lower_def lower_char_def)
  have h: "TIER_CONFIG (lower ''Starter'') = Some starter_config \<and> 1 \<in> users new_db"
    by (simp add: l TIER_CONFIG_starter new_db_def)
  have g: "lower ''gold'' \<notin> dom TIER_CONFIG" by (simp add: l TIER_CONFIG_dom)
  have p: "''pro'' \<in> dom TIER_CONFIG" by (simp add: TIER_CONFIG_dom)
  note post = create_challenge_postcondition
  from post[of "''Starter''" starter_config 1 new_db None, THEN conjunct1, THEN mp, OF h]
  obtain c where c: "create_challenge new_db 1 ''Starter'' None =
      (new_db\<lparr>challenges := (challenges new_db)(next_challenge_id new_db \<mapsto> c),
                 next_challenge_id := Suc (next_challenge_id new_db)\<rparr>, Inr c)"
    "tier c = lower ''Starter''"
    "challenge.initial_balance c = float_of_int (tier_config.initial_balance starter_config)"
    "current_balance c = challenge.initial_balance c"
    "highest_balance c = challenge.initial_balance c"
    "daily_start_balance c = challenge.initial_balance c"
    "challenge.status c = ''active''"
    by (elim exE conjE)
  have i: "float_of_int (tier_config.initial_balance starter_config) = 10000"
    by (simp add: starter_config_def)
  have 1: "\<exists>c s'. create_challenge new_db 1 ''Starter'' None = (s', Inr c)
          \<and> tier c = ''starter''
          \<and> challenge.initial_balance c = 10000 \<and> current_balance c = 10000
          \<and> highest_balance c = 10000 \<and> daily_start_balance c = 10000
          \<and> challenge.status c = ''active''"
    using c unfolding l i by (intro exI[of _ c] exI conjI) simp_all
  note 2 = post[of "''gold''" starter_config 1 new_db None,
      THEN conjunct2, THEN conjunct1, THEN mp, OF g]
  note 3 = post[of "''pro''" starter_config 1 new_db None,
      THEN conjunct2, THEN conjunct2, THEN conjunct1, THEN mp, OF p]
  show ?thesis by (intro conjI h[THEN conjunct1] h[THEN conjunct2] 1 g 2 p 3)
qed

section \<open>Refused requests\<close>

text \<open>
  The exit price is checked before the trade is looked up. The first trade of the history
  was closed at 390; a second request on it with the exit price 0 is refused for its exit
  price, not for the trade being closed.
\<close>

theorem already_closed_counterexample:
  "close_trade opened_db 1 1 390 =
     (failed_db, Inr (closed_trade (position 1 ''buy'' 10 500) 390,
        starter 8900 10000 10000 ''failed'' (Some ''Exceeded 10% total loss limit'')))
   \<and> map_option trade.status (trades failed_db 1) = Some ''closed''
   \<and> close_trade failed_db 1 1 0 = (failed_db, Inl (BadRequest ''Invalid exit price''))"
proof (intro conjI)
  show "map_option trade.status (trades failed_db 1) = Some ''closed''"
    by (simp add: failed_db_trades del: One_nat_def)
  show "close_trade failed_db 1 1 0 = (failed_db, Inl (BadRequest ''Invalid exit price''))"
    by (simp add: close_trade_def)
qed (rule first_close)

text \<open>
  C8, as the code has it. An exit price that is not above zero is refused with
  \<open>Invalid exit price\<close>, whatever the trade. With an exit price above zero, a trade of the
  caller whose status is not \<open>'open'\<close> is refused with \<open>Trade is already closed\<close>; so is,
  after a successful \<open>close_trade\<close>, every further request of the same user on the same
  trade id with an exit price above zero. Every refusal returns the database unchanged.
\<close>

theorem close_trade_refusals:
  "(p \<le> 0 \<longrightarrow> close_trade s uid tid p = (s, Inl (BadRequest ''Invalid exit price'')))
   \<and> (0 < p \<and> trade_first s tid uid = Some t \<and> trade.status t \<noteq> ''open'' \<longrightarrow>
        close_trade s uid tid p = (s, Inl (BadRequest ''Trade is already closed'')))
   \<and> (close_trade s uid tid p = (s', Inr r) \<and> 0 < p' \<longrightarrow>
        close_trade s' uid tid p' = (s', Inl (BadRequest ''Trade is already closed'')))"
proof (intro conjI impI)
  assume "p \<le> 0"
  then show "close_trade s uid tid p = (s, Inl (BadRequest ''Invalid exit price''))"
    by (simp add: close_trade_def)
next
  assume "0 < p \<and> trade_first s tid uid = Some t \<and> trade.status t \<noteq> ''open''"
  then show "close_trade s uid tid p = (s, Inl (BadRequest ''Trade is already closed''))"
    by (simp add: close_trade_def)
next
  assume a: "close_trade s uid tid p = (s', Inr r) \<and> 0 < p'"
  obtain t' c' where r: "r = (t', c')" by (cases r)
  from a r have "close_trade s uid tid p = (s', Inr (t', c'))" by simp
  then obtain t where h: "trade.user_id t = uid" "t' = closed_trade t p"
    "s' = s\<lparr>challenges := (challenges s)(challenge_id t \<mapsto> c'),
            trades := (trades s)(tid \<mapsto> t')\<rparr>"
    by (rule close_trade_success)
  have "trade_first s' tid uid = Some t'" by (simp add: trade_first_def h)
  moreover have "trade.status t' \<noteq> ''open''" by (simp add: h(2))
  ultimately show "close_trade s' uid tid p' = (s', Inl (BadRequest ''Trade is already closed''))"
    using a by (simp add: close_trade_def)
qed

text \<open>The first trade of the history, before and after it was closed.\<close>

theorem close_trade_refusals_witness:
  "close_trade opened_db 1 1 0 = (opened_db, Inl (BadRequest ''Invalid exit price''))
   \<and> trade_first failed_db 1 1 = Some (closed_trade (position 1 ''buy'' 10 500) 390)
   \<and> close_trade failed_db 1 1 400 = (failed_db, Inl (BadRequest ''Trade is already closed''))
   \<and> (\<exists>r. close_trade opened_db 1 1 390 = (failed_db, Inr r))
   \<and> close_trade failed_db 1 1 390 = (failed_db, Inl (BadRequest ''Trade is already closed''))"
proof -
  note ref = close_trade_refusals
  have 1: "close_trade opened_db 1 1 0 = (opened_db, Inl (BadRequest ''Invalid exit price''))"
    using ref[of 0 opened_db 1 1] by simp
  have tf: "trade_first failed_db 1 1 = Some (closed_trade (position 1 ''buy'' 10 500) 390)"
    by (simp add: trade_first_def failed_db_trades del: One_nat_def)
  have b: "(0::pyfloat) < 400 \<and> trade_first failed_db 1 1
              = Some (closed_trade (position 1 ''buy'' 10 500) 390)
           \<and> trade.status (closed_trade (position 1 ''buy'' 10 500) 390) \<noteq> ''open''"
    using tf by simp
  note 2 = ref[of 400 failed_db 1 1 "closed_trade (position 1 ''buy'' 10 500) 390",
      THEN conjunct2, THEN conjunct1, THEN mp, OF b]
  obtain r where run: "close_trade opened_db 1 1 390 = (failed_db, Inr r)"
    using first_close by (rule that)
  have c: "close_trade opened_db 1 1 390 = (failed_db, Inr r) \<and> (0::pyfloat) < 390"
    using run by simp
  note 3 = ref[of 390 opened_db 1 1 _ failed_db r 390,
      THEN conjunct2, THEN conjunct2, THEN mp, OF c]
  from run have 4: "\<exists>r. close_trade opened_db 1 1 390 = (failed_db, Inr r)" ..
  show ?thesis by (intro conjI 1 tf 2 4 3)
qed

text \<open>
  \<open>execute_trade\<close> checks the balance last. On the failed challenge of \<open>failed_db\<close>, with a
  balance of 8900, a buy of 100 at 500 is refused because the challenge is not active, not
  for the insufficient balance.
\<close>

theorem insufficient_balance_counterexample:
  "map_option challenge.status (challenges failed_db 1) = Some ''failed''
   \<and> map_option current_balance (challenges failed_db 1) = Some 8900
   \<and> (100::pyfloat) * 500 > 8900
   \<and> execute_trade failed_db 1 1 ''aapl'' ''buy'' 100 500
        = (failed_db, Inl (BadRequest ''Challenge is not active''))"
  by (simp add: failed_db_challenge execute_trade_def lower_buy challenge_first_def
        del: One_nat_def)

text \<open>
  C9, as the code has it. \<open>execute_trade\<close> makes its checks in this order and returns the
  first refusal, leaving the database unchanged (no trade is created, no challenge is
  touched): a side whose lower-case form is neither \<open>buy\<close> nor \<open>sell\<close>; a quantity or an
  entry price that is not above zero; a challenge that the user does not have; a challenge
  whose status is not \<open>'active'\<close>; a trade value \<open>quantity * entry_price\<close> strictly above
  \<open>current_balance\<close>.
\<close>

theorem execute_trade_refusals:
  "(lower ty \<notin> {''buy'', ''sell''} \<longrightarrow>
      execute_trade s uid cid sy ty qty pr
        = (s, Inl (BadRequest ''Trade type must be buy or sell'')))
   \<and> (lower ty \<in> {''buy'', ''sell''} \<and> (qty \<le> 0 \<or> pr \<le> 0) \<longrightarrow>
      execute_trade s uid cid sy ty qty pr
        = (s, Inl (BadRequest ''Invalid quantity or price'')))
   \<and> (lower ty \<in> {''buy'', ''sell''} \<and> 0 < qty \<and> 0 < pr
        \<and> challenge_first s cid uid = None \<longrightarrow>
      execute_trade s uid cid sy ty qty pr
        = (s, Inl (NotFound ''Challenge not found'')))
   \<and> (lower ty \<in> {''buy'', ''sell''} \<and> 0 < qty \<and> 0 < pr
        \<and> challenge_first s cid uid = Some c \<and> challenge.status c \<noteq> ''active'' \<longrightarrow>
      execute_trade s uid cid sy ty qty pr
        = (s, Inl (BadRequest ''Challenge is not active'')))
   \<and> (lower ty \<in> {''buy'', ''sell''} \<and> 0 < qty \<and> 0 < pr
        \<and> challenge_first s cid uid = Some c \<and> challenge.status c = ''active''
        \<and> qty * pr > current_balance c \<longrightarrow>
      execute_trade s uid cid sy ty qty pr
        = (s, Inl (BadRequest ''Insufficient balance'')))"
  by (simp add: execute_trade_def Let_def)

text \<open>One request for each refusal.\<close>

theorem execute_trade_refusals_witness:
  "execute_trade opened_db 1 1 ''aapl'' ''hold'' 10 500
      = (opened_db, Inl (BadRequest ''Trade type must be buy or sell''))
   \<and> execute_trade opened_db 1 1 ''aapl'' ''buy'' 0 500
      = (opened_db, Inl (BadRequest ''Invalid quantity or price''))
   \<and> execute_trade opened_db 1 7 ''aapl'' ''buy'' 10 500
      = (opened_db, Inl (NotFound ''Challenge not found''))
   \<and> execute_trade failed_db 1 1 ''aapl'' ''buy'' 1 1
      = (failed_db, Inl (BadRequest ''Challenge is not active''))
   \<and> execute_trade opened_db 1 1 ''aapl'' ''buy'' 100 500
      = (opened_db, Inl (BadRequest ''Insufficient balance''))"
proof -
  let ?c = "starter 10000 10000 10000 ''active'' None"
  let ?f = "starter 8900 10000 10000 ''failed'' (Some ''Exceeded 10% total loss limit'')"
  note ref = execute_trade_refusals
  have l: "lower ''hold'' = ''hold''" by (simp add: lower_def lower_char_def)
  have a: "lower ''hold'' \<notin> {''buy'', ''sell''}" by (simp add: l)
  have b: "lower ''buy'' \<in> {''buy'', ''sell''} \<and> ((0::pyfloat) \<le> 0 \<or> (500::pyfloat) \<le> 0)"
    by (simp add: lower_buy)
  have n: "lower ''buy'' \<in> {''buy'', ''sell''} \<and> (0::pyfloat) < 10 \<and> (0::pyfloat) < 500
      \<and> challenge_first opened_db 7 1 = None"
    by (simp add: lower_buy challenge_first_def opened_db_eq)
  have d: "lower ''buy'' \<in> {''buy'', ''sell''} \<and> (0::pyfloat) < 1 \<and> (0::pyfloat) < 1
      \<and> challenge_first failed_db 1 1 = Some ?f \<and> challenge.status ?f \<noteq> ''active''"
    by (simp add: lower_buy challenge_first_def failed_db_challenge del: One_nat_def)
  have e: "lower ''buy'' \<in> {''buy'', ''sell''} \<and> (0::pyfloat) < 100 \<and> (0::pyfloat) < 500
      \<and> challenge_first opened_db 1 1 = Some ?c \<and> challenge.status ?c = ''active''
      \<and> 100 * 500 > current_balance ?c"
    by (simp add: lower_buy challenge_first_def opened_db_eq)
  note 1 = ref[of "''hold''" opened_db 1 1 "''aapl''" 10 500,
      THEN conjunct1, THEN mp, OF a]
  note 2 = ref[of "''buy''" opened_db 1 1 "''aapl''" 0 500,
      THEN conjunct2, THEN conjunct1, THEN mp, OF b]
  note 3 = ref[of "''buy''" opened_db 1 7 "''aapl''" 10 500,
      THEN conjunct2, THEN conjunct2, THEN conjunct1, THEN mp, OF n]
  note 4 = ref[of "''buy''" failed_db 1 1 "''aapl''" 1 1 ?f,
      THEN conjunct2, THEN conjunct2, THEN conjunct2, THEN conjunct1, THEN mp, OF d]
  note 5 = ref[of "''buy''" opened_db 1 1 "''aapl''" 100 500 ?c,
      THEN conjunct2, THEN conjunct2, THEN conjunct2, THEN conjunct2, THEN mp, OF e]
  show ?thesis by (intro conjI 1 2 3 4 5)
qed

end
